theory Spec2Isabelle
  imports Main
begin

section \<open>Python values reaching the constructor\<close>

text \<open>
  \<open>IamRole.__init__\<close> inspects three of its arguments dynamically: \<open>description\<close> by
  truthiness and \<open>str\<close>, the elements of \<open>policies\<close> by \<open>isinstance(x, str)\<close>, and
  \<open>add_instance_profile\<close> by \<open>isinstance(_, bool)\<close>. Such arguments are values of
  \<open>pyval\<close>.
\<close>

datatype pyval = PyNone | PyBool bool | PyInt int | PyStr string

fun truthy :: "pyval \<Rightarrow> bool" where
  "truthy PyNone = False"
| "truthy (PyBool b) = b"
| "truthy (PyInt i) = (i \<noteq> 0)"
| "truthy (PyStr s) = (s \<noteq> [])"

fun isinstance_str :: "pyval \<Rightarrow> bool" where
  "isinstance_str (PyStr s) = True"
| "isinstance_str v = False"

fun digit_char :: "nat \<Rightarrow> char" where
  "digit_char d = char_of (48 + d)"

fun str_nat :: "nat \<Rightarrow> string" where
  "str_nat n = (if n < 10 then [digit_char n] else str_nat (n div 10) @ [digit_char (n mod 10)])"

declare str_nat.simps [simp del]

text \<open>
  \<open>py_str\<close> is the string that the builtin \<open>str\<close> returns where it returns. On an
  \<open>int\<close> of more than \<open>sys.int_max_str_digits\<close> decimal digits (4300 unless reconfigured;
  the sign is not counted) \<open>str\<close> raises \<open>ValueError\<close> instead: \<open>str_raises\<close> says
  when, and \<open>str\<close> is the call with both outcomes (its error type is declared below).
\<close>

definition int_max_str_digits :: nat where
  "int_max_str_digits = 4300"

fun str_raises :: "pyval \<Rightarrow> bool" where
  "str_raises (PyInt i) = (10 ^ int_max_str_digits \<le> \<bar>i\<bar>)"
| "str_raises v = False"

fun py_str :: "pyval \<Rightarrow> string" where
  "py_str PyNone = ''None''"
| "py_str (PyBool b) = (if b then ''True'' else ''False'')"
| "py_str (PyInt i) = (if i < 0 then CHR ''-'' # str_nat (nat (- i)) else str_nat (nat i))"
| "py_str (PyStr s) = s"

text \<open>
  The \<open>policies\<close> argument is a single string, a sequence (tuple, list, set) whose
  elements may be any value, or a value that cannot be iterated over (\<open>None\<close>, a number,
  a boolean).
\<close>

datatype policy_input = PolStr string | PolSeq "pyval list" | PolNonIterable

text \<open>Dictionaries and lists of the trust-policy document, keys in source order.\<close>

datatype json = JStr string | JArr "json list" | JObj "(string \<times> json) list"

section \<open>Errors\<close>

text \<open>
  One constructor per way the module's code stops:
  \<^item> \<open>NoSuchEntityException\<close>: \<open>IAM.exceptions.NoSuchEntityException\<close>;
  \<^item> \<open>ServiceError\<close>: any other failure of the IAM client;
  \<^item> \<open>InvalidServicePrincipal\<close>: \<open>Exception('service must be in ', _allowed_services)\<close>;
  \<^item> \<open>InvalidPolicySet None\<close>: \<open>Exception('policies must be a string or a sequence of
    strings.')\<close>, and \<open>InvalidPolicySet (Some aws_policies)\<close>: \<open>Exception('each policy must be
    an AWS managed policy: ', aws_policies)\<close>;
  \<^item> \<open>InvalidInstanceProfileFlag\<close>: \<open>Exception('add_instance_profile is a boolean input')\<close>;
  \<^item> \<open>IndexError\<close>: \<open>[0]\<close> on an empty list;
  \<^item> \<open>TypeError\<close>: iterating over \<open>None\<close> or another value that is not iterable;
  \<^item> \<open>ValueError\<close>: \<open>str\<close> of an \<open>int\<close> with too many digits.
\<close>

datatype error =
    NoSuchEntityException
  | ServiceError string
  | InvalidServicePrincipal "string list"
  | InvalidPolicySet "string list option"
  | InvalidInstanceProfileFlag
  | IndexError
  | TypeError
  | ValueError

definition str :: "pyval \<Rightarrow> error + string" where
  "str v = (if str_raises v then Inl ValueError else Inr (py_str v))"

section \<open>The IAM client\<close>

text \<open>
  The calls the module makes on the module-level \<open>IAM\<close> client, with their keyword
  arguments in the order the source writes them. \<open>CreateRole\<close> carries the role name, the
  trust-policy document handed to \<open>json.dumps\<close>, and the description.
\<close>

datatype call =
    GetRole string
  | ListAttachedRolePolicies string
  | ListPolicies
  | CreateRole string json string
  | AttachRolePolicy string string
  | CreateInstanceProfile string
  | AddRoleToInstanceProfile string string
  | ListInstanceProfilesForRole string
  | RemoveRoleFromInstanceProfile string string
  | DeleteInstanceProfile string
  | DetachRolePolicy string string
  | DeleteRole string

text \<open>The parts of the responses that the module reads.\<close>

record role_response =
  role_Arn :: string
  role_Description :: "string option"
  role_AssumeRolePolicyDocument :: json

record policy_entry =
  PolicyName :: string
  policy_Arn :: string

record instance_profile =
  InstanceProfileName :: string
  profile_Arn :: string

text \<open>
  The client is an external collaborator: each operation answers from the calls made so
  far (its first argument) and its own arguments, with a response or an exception.
\<close>

record iam_client =
  get_role :: "call list \<Rightarrow> string \<Rightarrow> error + role_response"
  list_attached_role_policies :: "call list \<Rightarrow> string \<Rightarrow> error + policy_entry list"
  list_policies :: "call list \<Rightarrow> error + policy_entry list"
  create_role :: "call list \<Rightarrow> string \<Rightarrow> json \<Rightarrow> string \<Rightarrow> error + string"
  attach_role_policy :: "call list \<Rightarrow> string \<Rightarrow> string \<Rightarrow> error + unit"
  create_instance_profile :: "call list \<Rightarrow> string \<Rightarrow> error + unit"
  add_role_to_instance_profile :: "call list \<Rightarrow> string \<Rightarrow> string \<Rightarrow> error + unit"
  list_instance_profiles_for_role :: "call list \<Rightarrow> string \<Rightarrow> error + instance_profile list"
  remove_role_from_instance_profile :: "call list \<Rightarrow> string \<Rightarrow> string \<Rightarrow> error + unit"
  delete_instance_profile :: "call list \<Rightarrow> string \<Rightarrow> error + unit"
  detach_role_policy :: "call list \<Rightarrow> string \<Rightarrow> string \<Rightarrow> error + unit"
  delete_role :: "call list \<Rightarrow> string \<Rightarrow> error + unit"

text \<open>What the program does to the outside: the calls issued and the lines printed.\<close>

record world =
  calls :: "call list"
  stdout :: "string list"

definition issue :: "call \<Rightarrow> world \<Rightarrow> world" where
  "issue c w = w\<lparr>calls := calls w @ [c]\<rparr>"

definition print :: "string \<Rightarrow> world \<Rightarrow> world" where
  "print s w = w\<lparr>stdout := stdout w @ [s]\<rparr>"

definition IAM_get_role :: "iam_client \<Rightarrow> string \<Rightarrow> world \<Rightarrow> (error + role_response) \<times> world" where
  "IAM_get_role iam RoleName w = (get_role iam (calls w) RoleName, issue (GetRole RoleName) w)"

definition IAM_list_attached_role_policies ::
  "iam_client \<Rightarrow> string \<Rightarrow> world \<Rightarrow> (error + policy_entry list) \<times> world" where
  "IAM_list_attached_role_policies iam RoleName w =
     (list_attached_role_policies iam (calls w) RoleName, issue (ListAttachedRolePolicies RoleName) w)"

definition IAM_list_policies :: "iam_client \<Rightarrow> world \<Rightarrow> (error + policy_entry list) \<times> world" where
  "IAM_list_policies iam w = (list_policies iam (calls w), issue ListPolicies w)"

definition IAM_create_role ::
  "iam_client \<Rightarrow> string \<Rightarrow> json \<Rightarrow> string \<Rightarrow> world \<Rightarrow> (error + string) \<times> world" where
  "IAM_create_role iam RoleName doc descr w =
     (create_role iam (calls w) RoleName doc descr, issue (CreateRole RoleName doc descr) w)"

definition IAM_attach_role_policy ::
  "iam_client \<Rightarrow> string \<Rightarrow> string \<Rightarrow> world \<Rightarrow> (error + unit) \<times> world" where
  "IAM_attach_role_policy iam PolicyArn RoleName w =
     (attach_role_policy iam (calls w) PolicyArn RoleName, issue (AttachRolePolicy PolicyArn RoleName) w)"

definition IAM_create_instance_profile :: "iam_client \<Rightarrow> string \<Rightarrow> world \<Rightarrow> (error + unit) \<times> world" where
  "IAM_create_instance_profile iam ProfileName w =
     (create_instance_profile iam (calls w) ProfileName, issue (CreateInstanceProfile ProfileName) w)"

definition IAM_add_role_to_instance_profile ::
  "iam_client \<Rightarrow> string \<Rightarrow> string \<Rightarrow> world \<Rightarrow> (error + unit) \<times> world" where
  "IAM_add_role_to_instance_profile iam ProfileName RoleName w =
     (add_role_to_instance_profile iam (calls w) ProfileName RoleName,
      issue (AddRoleToInstanceProfile ProfileName RoleName) w)"

definition IAM_list_instance_profiles_for_role ::
  "iam_client \<Rightarrow> string \<Rightarrow> world \<Rightarrow> (error + instance_profile list) \<times> world" where
  "IAM_list_instance_profiles_for_role iam RoleName w =
     (list_instance_profiles_for_role iam (calls w) RoleName, issue (ListInstanceProfilesForRole RoleName) w)"

definition IAM_remove_role_from_instance_profile ::
  "iam_client \<Rightarrow> string \<Rightarrow> string \<Rightarrow> world \<Rightarrow> (error + unit) \<times> world" where
  "IAM_remove_role_from_instance_profile iam ProfileName RoleName w =
     (remove_role_from_instance_profile iam (calls w) ProfileName RoleName,
      issue (RemoveRoleFromInstanceProfile ProfileName RoleName) w)"

definition IAM_delete_instance_profile :: "iam_client \<Rightarrow> string \<Rightarrow> world \<Rightarrow> (error + unit) \<times> world" where
  "IAM_delete_instance_profile iam ProfileName w =
     (delete_instance_profile iam (calls w) ProfileName, issue (DeleteInstanceProfile ProfileName) w)"

definition IAM_detach_role_policy ::
  "iam_client \<Rightarrow> string \<Rightarrow> string \<Rightarrow> world \<Rightarrow> (error + unit) \<times> world" where
  "IAM_detach_role_policy iam RoleName PolicyArn w =
     (detach_role_policy iam (calls w) RoleName PolicyArn, issue (DetachRolePolicy RoleName PolicyArn) w)"

definition IAM_delete_role :: "iam_client \<Rightarrow> string \<Rightarrow> world \<Rightarrow> (error + unit) \<times> world" where
  "IAM_delete_role iam RoleName w = (delete_role iam (calls w) RoleName, issue (DeleteRole RoleName) w)"

section \<open>The role object\<close>

text \<open>
  Modelled from the spec: the base class \<open>ObjectWithArn\<close> (\<open>base_classes.py\<close>, not part of
  the sources at hand) stores \<open>name\<close> and \<open>verbosity\<close> and exposes \<open>arn\<close>.

  The attributes that adoption copies from the probe's namedtuple hold whatever the
  namedtuple holds, \<open>None\<close> included, hence the option types.
\<close>

record iam_role =
  name :: string
  verbosity :: int
  pre_existing :: bool
  description :: "string option"
  service :: "string option"
  role_policy_document :: "json option"
  policies :: "string list option"
  add_instance_profile :: "bool option"
  arn :: "string option"

text \<open>The namedtuple \<open>RoleExists\<close>: every field but the first defaults to \<open>None\<close>.\<close>

record role_exists =
  re_exists :: bool
  re_description :: "string option"
  re_role_policy_document :: "json option"
  re_policies :: "string list option"
  re_add_instance_profile :: "bool option"
  re_arn :: "string option"

definition RoleExists :: "bool \<Rightarrow> role_exists" where
  "RoleExists e =
     \<lparr>re_exists = e, re_description = None, re_role_policy_document = None,
      re_policies = None, re_add_instance_profile = None, re_arn = None\<rparr>"

definition allowed_services :: "string list" where
  "allowed_services = [''batch'', ''ec2'', ''ecs-tasks'', ''lambda'', ''spotfleet'']"

section \<open>\<open>_exists_already\<close>\<close>

text \<open>
  The \<open>try\<close> block spans both client calls, so \<open>NoSuchEntityException\<close> from either is
  caught; every other exception propagates.
\<close>

definition exists_already :: "iam_client \<Rightarrow> string \<Rightarrow> int \<Rightarrow> world \<Rightarrow> (error + role_exists) \<times> world" where
  "exists_already iam nm verb w =
     (case IAM_get_role iam nm w of
        (Inl e, w1) \<Rightarrow>
          if e = NoSuchEntityException then (Inr (RoleExists False), w1) else (Inl e, w1)
      | (Inr response, w1) \<Rightarrow>
          let arn' = role_Arn response;
              description' = (case role_Description response of None \<Rightarrow> [] | Some d \<Rightarrow> d);
              role_policy = role_AssumeRolePolicyDocument response
          in (case IAM_list_attached_role_policies iam nm w1 of
                (Inl e, w2) \<Rightarrow>
                  if e = NoSuchEntityException then (Inr (RoleExists False), w2) else (Inl e, w2)
              | (Inr attached_policies, w2) \<Rightarrow>
                  let policies' = map PolicyName attached_policies;
                      w3 = (if verb > 0
                            then print (''IAM role '' @ nm @ '' already exists: '' @ arn') w2
                            else w2)
                  in (Inr \<lparr>re_exists = True, re_description = Some description',
                           re_role_policy_document = Some role_policy,
                           re_policies = Some policies',
                           re_add_instance_profile = Some False, re_arn = Some arn'\<rparr>, w3)))"

section \<open>\<open>_create\<close>\<close>

text \<open>\<open>policy_filter[0]['Arn']\<close> over the entries of \<open>list_policies\<close> named \<open>policy\<close>.\<close>

definition policy_filter_arn :: "policy_entry list \<Rightarrow> string \<Rightarrow> error + string" where
  "policy_filter_arn response policy =
     (case filter (\<lambda>p. PolicyName p = policy) response of
        [] \<Rightarrow> Inl IndexError
      | p # rest \<Rightarrow> Inr (policy_Arn p))"

text \<open>The loop \<open>for policy in self.policies\<close> of \<open>_create\<close>.\<close>

fun attach_loop ::
  "iam_client \<Rightarrow> string \<Rightarrow> int \<Rightarrow> policy_entry list \<Rightarrow> string list \<Rightarrow> world \<Rightarrow> (error + unit) \<times> world" where
  "attach_loop iam nm verb response [] w = (Inr (), w)"
| "attach_loop iam nm verb response (policy # rest) w =
     (case policy_filter_arn response policy of
        Inl e \<Rightarrow> (Inl e, w)
      | Inr policy_arn \<Rightarrow>
          (case IAM_attach_role_policy iam policy_arn nm w of
             (Inl e, w1) \<Rightarrow> (Inl e, w1)
           | (Inr u, w1) \<Rightarrow>
               attach_loop iam nm verb response rest
                 (if verb > 0
                  then print (''Attached policy '' @ policy @ '' to role '' @ nm) w1
                  else w1)))"

text \<open>
  \<open>_create\<close> reads \<open>name\<close>, \<open>verbosity\<close>, \<open>role_policy_document\<close>, \<open>description\<close>,
  \<open>policies\<close> and \<open>add_instance_profile\<close> of the object under construction; the constructor
  has just assigned them, and they are passed here as arguments.
\<close>

definition create ::
  "iam_client \<Rightarrow> string \<Rightarrow> int \<Rightarrow> json \<Rightarrow> string \<Rightarrow> string list \<Rightarrow> bool \<Rightarrow> world \<Rightarrow> (error + string) \<times> world" where
  "create iam nm verb doc descr pols aip w =
     (case IAM_create_role iam nm doc descr w of
        (Inl e, w1) \<Rightarrow> (Inl e, w1)
      | (Inr role_arn, w1) \<Rightarrow>
          let w2 = (if verb > 0
                    then print (''Created role '' @ nm @ '' with arn '' @ role_arn) w1
                    else w1)
          in (case IAM_list_policies iam w2 of
                (Inl e, w3) \<Rightarrow> (Inl e, w3)
              | (Inr policy_response, w3) \<Rightarrow>
                  (case attach_loop iam nm verb policy_response pols w3 of
                     (Inl e, w4) \<Rightarrow> (Inl e, w4)
                   | (Inr u, w4) \<Rightarrow>
                       if aip then
                         let instance_profile_name = nm @ ''-instance-profile'' in
                         (case IAM_create_instance_profile iam instance_profile_name w4 of
                            (Inl e, w5) \<Rightarrow> (Inl e, w5)
                          | (Inr u1, w5) \<Rightarrow>
                              (case IAM_add_role_to_instance_profile iam instance_profile_name nm w5 of
                                 (Inl e, w6) \<Rightarrow> (Inl e, w6)
                               | (Inr u2, w6) \<Rightarrow>
                                   (Inr role_arn,
                                    if verb > 0
                                    then print (''Created instance profile '' @ instance_profile_name) w6
                                    else w6)))
                       else (Inr role_arn, w4))))"

section \<open>\<open>__init__\<close>\<close>

text \<open>The dictionary literal assigned to \<open>role_policy\<close>, for the value of \<open>self._service\<close>.\<close>

definition role_policy :: "string \<Rightarrow> json" where
  "role_policy svc =
     JObj [(''Version'', JStr ''2012-10-17''),
           (''Statement'', JArr [JObj [(''Sid'', JStr ''''),
                                      (''Effect'', JStr ''Allow''),
                                      (''Principal'', JObj [(''Service'', JStr svc)]),
                                      (''Action'', JStr ''sts:AssumeRole'')]])]"

text \<open>
  Lines 83 to 95: the shape check on \<open>policies\<close>, then the comparison
  \<open>input_policies < set(aws_policies)\<close>, which on Python sets is the proper-subset test.
  \<open>tuple(input_policies)\<close> lists the set in an order that Python leaves open (it
  follows the hashes of the strings); \<open>remdups\<close> fixes one such order, and nothing below
  depends on which. \<open>for x in policies\<close> over a value that is not iterable raises
  \<open>TypeError\<close>.
\<close>

definition input_policies :: "policy_input \<Rightarrow> error + string list" where
  "input_policies pols =
     (case pols of
        PolStr s \<Rightarrow> Inr [s]
      | PolSeq xs \<Rightarrow>
          if list_all isinstance_str xs then Inr (remdups [s. PyStr s \<leftarrow> xs])
          else Inl (InvalidPolicySet None)
      | PolNonIterable \<Rightarrow> Inl TypeError)"

definition resolve_policies :: "policy_input \<Rightarrow> string list \<Rightarrow> error + string list" where
  "resolve_policies pols aws_policies =
     (case input_policies pols of
        Inl e \<Rightarrow> Inl e
      | Inr inp \<Rightarrow>
          if \<not> (set inp \<subset> set aws_policies) then Inl (InvalidPolicySet (Some aws_policies))
          else Inr inp)"

definition init ::
  "iam_client \<Rightarrow> string \<Rightarrow> pyval \<Rightarrow> string \<Rightarrow> policy_input \<Rightarrow> pyval \<Rightarrow> int \<Rightarrow> world
     \<Rightarrow> (error + iam_role) \<times> world" where
  "init iam nm descr svc pols aip verb w =
     (case exists_already iam nm verb w of
        (Inl e, w1) \<Rightarrow> (Inl e, w1)
      | (Inr role_exists, w1) \<Rightarrow>
          if re_exists role_exists then
            (Inr \<lparr>name = nm, verbosity = verb, pre_existing = re_exists role_exists,
                  description = re_description role_exists,
                  service = None,
                  role_policy_document = re_role_policy_document role_exists,
                  policies = re_policies role_exists,
                  add_instance_profile = re_add_instance_profile role_exists,
                  arn = re_arn role_exists\<rparr>, w1)
          else
            (case (if truthy descr then str descr
                   else Inr ''This role was generated by cloudknot'') of
               Inl e \<Rightarrow> (Inl e, w1)
             | Inr description' \<Rightarrow>
               if svc \<in> set allowed_services then
                 let service' = svc @ ''.amazonaws.com'';
                     doc = role_policy service'
                 in (case IAM_list_policies iam w1 of
                       (Inl e, w2) \<Rightarrow> (Inl e, w2)
                     | (Inr response, w2) \<Rightarrow>
                         let aws_policies = map PolicyName response in
                         (case resolve_policies pols aws_policies of
                            Inl e \<Rightarrow> (Inl e, w2)
                          | Inr policies' \<Rightarrow>
                              (case aip of
                                 PyBool add_instance_profile' \<Rightarrow>
                                   (case create iam nm verb doc description' policies'
                                           add_instance_profile' w2 of
                                      (Inl e, w3) \<Rightarrow> (Inl e, w3)
                                    | (Inr arn', w3) \<Rightarrow>
                                        (Inr \<lparr>name = nm, verbosity = verb,
                                              pre_existing = re_exists role_exists,
                                              description = Some description',
                                              service = Some service',
                                              role_policy_document = Some doc,
                                              policies = Some policies',
                                              add_instance_profile = Some add_instance_profile',
                                              arn = Some arn'\<rparr>, w3))
                               | _ \<Rightarrow> (Inl InvalidInstanceProfileFlag, w2))))
               else (Inl (InvalidServicePrincipal allowed_services), w1)))"

section \<open>\<open>instance_profile_arn\<close>\<close>

definition instance_profile_arn :: "iam_client \<Rightarrow> iam_role \<Rightarrow> world \<Rightarrow> (error + string option) \<times> world" where
  "instance_profile_arn iam self w =
     (case IAM_list_instance_profiles_for_role iam (name self) w of
        (Inl e, w1) \<Rightarrow> (Inl e, w1)
      | (Inr [], w1) \<Rightarrow> (Inr None, w1)
      | (Inr (p # rest), w1) \<Rightarrow> (Inr (Some (profile_Arn p)), w1))"

section \<open>\<open>remove_aws_resource\<close>\<close>

text \<open>The loop \<open>for policy in self.policies\<close> of \<open>remove_aws_resource\<close>.\<close>

fun detach_loop ::
  "iam_client \<Rightarrow> string \<Rightarrow> policy_entry list \<Rightarrow> string list \<Rightarrow> world \<Rightarrow> (error + unit) \<times> world" where
  "detach_loop iam nm response [] w = (Inr (), w)"
| "detach_loop iam nm response (policy # rest) w =
     (case policy_filter_arn response policy of
        Inl e \<Rightarrow> (Inl e, w)
      | Inr policy_arn \<Rightarrow>
          (case IAM_detach_role_policy iam nm policy_arn w of
             (Inl e, w1) \<Rightarrow> (Inl e, w1)
           | (Inr u, w1) \<Rightarrow> detach_loop iam nm response rest w1))"

text \<open>
  The first step runs when \<open>self.add_instance_profile\<close> is truthy (\<open>None\<close> is not).
\<close>

definition remove_instance_profile :: "iam_client \<Rightarrow> iam_role \<Rightarrow> world \<Rightarrow> (error + unit) \<times> world" where
  "remove_instance_profile iam self w =
     (if add_instance_profile self = Some True then
        (case IAM_list_instance_profiles_for_role iam (name self) w of
           (Inl e, w1) \<Rightarrow> (Inl e, w1)
         | (Inr [], w1) \<Rightarrow> (Inl IndexError, w1)
         | (Inr (p # rest), w1) \<Rightarrow>
             let instance_profile_name = InstanceProfileName p in
             (case IAM_remove_role_from_instance_profile iam instance_profile_name (name self) w1 of
                (Inl e, w2) \<Rightarrow> (Inl e, w2)
              | (Inr u, w2) \<Rightarrow> IAM_delete_instance_profile iam instance_profile_name w2))
      else (Inr (), w))"

text \<open>
  The method returns its outcome, the object as the method leaves it, and the world.
\<close>

definition remove_aws_resource ::
  "iam_client \<Rightarrow> iam_role \<Rightarrow> world \<Rightarrow> (error + unit) \<times> iam_role \<times> world" where
  "remove_aws_resource iam self w =
     (case remove_instance_profile iam self w of
        (Inl e, w1) \<Rightarrow> (Inl e, self, w1)
      | (Inr u, w1) \<Rightarrow>
          (case IAM_list_policies iam w1 of
             (Inl e, w2) \<Rightarrow> (Inl e, self, w2)
           | (Inr policy_response, w2) \<Rightarrow>
               (case policies self of
                  None \<Rightarrow> (Inl TypeError, self, w2)
                | Some pols \<Rightarrow>
                    (case detach_loop iam (name self) policy_response pols w2 of
                       (Inl e, w3) \<Rightarrow> (Inl e, self, w3)
                     | (Inr u1, w3) \<Rightarrow>
                         (case IAM_delete_role iam (name self) w3 of
                            (Inl e, w4) \<Rightarrow> (Inl e, self, w4)
                          | (Inr u2, w4) \<Rightarrow>
                              (Inr (), self,
                               if verbosity self > 0
                               then print (''Deleted role '' @ name self) w4
                               else w4))))))"

section \<open>Classifying calls, and a test double for the client\<close>

text \<open>The four read operations leave the account as it is; every other call changes it.\<close>

fun is_write :: "call \<Rightarrow> bool" where
  "is_write (GetRole n) = False"
| "is_write (ListAttachedRolePolicies n) = False"
| "is_write ListPolicies = False"
| "is_write (ListInstanceProfilesForRole n) = False"
| "is_write c = True"

text \<open>
  A client over a fixed account: the roles present (each with its attached policies), the
  managed policies available, and the instance profiles reported for any role. Every
  write succeeds.
\<close>

definition stub_iam ::
  "(string \<times> role_response \<times> policy_entry list) list \<Rightarrow> policy_entry list \<Rightarrow> instance_profile list
     \<Rightarrow> iam_client" where
  "stub_iam roles available profiles =
     \<lparr>get_role = (\<lambda>h n. case map_of roles n of
                            None \<Rightarrow> Inl NoSuchEntityException
                          | Some (r, attached) \<Rightarrow> Inr r),
      list_attached_role_policies = (\<lambda>h n. case map_of roles n of
                            None \<Rightarrow> Inl NoSuchEntityException
                          | Some (r, attached) \<Rightarrow> Inr attached),
      list_policies = (\<lambda>h. Inr available),
      create_role = (\<lambda>h n doc d. Inr (''arn:aws:iam::123456789012:role/'' @ n)),
      attach_role_policy = (\<lambda>h a n. Inr ()),
      create_instance_profile = (\<lambda>h p. Inr ()),
      add_role_to_instance_profile = (\<lambda>h p n. Inr ()),
      list_instance_profiles_for_role = (\<lambda>h n. Inr profiles),
      remove_role_from_instance_profile = (\<lambda>h p n. Inr ()),
      delete_instance_profile = (\<lambda>h p. Inr ()),
      detach_role_policy = (\<lambda>h n a. Inr ()),
      delete_role = (\<lambda>h n. Inr ())\<rparr>"

definition w0 :: world where
  "w0 = \<lparr>calls = [], stdout = []\<rparr>"

definition policy_A :: policy_entry where
  "policy_A = \<lparr>PolicyName = ''AmazonS3ReadOnlyAccess'', policy_Arn = ''arn:aws:iam::aws:policy/AmazonS3ReadOnlyAccess''\<rparr>"

definition policy_B :: policy_entry where
  "policy_B = \<lparr>PolicyName = ''AmazonEC2FullAccess'', policy_Arn = ''arn:aws:iam::aws:policy/AmazonEC2FullAccess''\<rparr>"

definition existing_role :: role_response where
  "existing_role =
     \<lparr>role_Arn = ''arn:aws:iam::123456789012:role/old-role'', role_Description = None,
      role_AssumeRolePolicyDocument = JObj [(''Version'', JStr ''2008-10-17'')]\<rparr>"

definition bound_profile :: instance_profile where
  "bound_profile =
     \<lparr>InstanceProfileName = ''old-role-instance-profile'',
      profile_Arn = ''arn:aws:iam::123456789012:instance-profile/old-role-instance-profile''\<rparr>"

section \<open>Basic facts about the world\<close>

lemmas IAM_defs = IAM_get_role_def IAM_list_attached_role_policies_def IAM_list_policies_def
  IAM_create_role_def IAM_attach_role_policy_def IAM_create_instance_profile_def
  IAM_add_role_to_instance_profile_def IAM_list_instance_profiles_for_role_def
  IAM_remove_role_from_instance_profile_def IAM_delete_instance_profile_def
  IAM_detach_role_policy_def IAM_delete_role_def

lemmas stub_defs = stub_iam_def w0_def policy_A_def policy_B_def existing_role_def
  bound_profile_def

lemma calls_issue [simp]: "calls (issue c w) = calls w @ [c]"
  by (simp add: issue_def)

lemma stdout_issue [simp]: "stdout (issue c w) = stdout w"
  by (simp add: issue_def)

lemma calls_print [simp]: "calls (print s w) = calls w"
  by (simp add: print_def)

lemma stdout_print [simp]: "stdout (print s w) = stdout w @ [s]"
  by (simp add: print_def)

section \<open>The existence probe\<close>

lemma exists_already_not_found:
  assumes "get_role iam (calls w) nm = Inl NoSuchEntityException"
  shows "exists_already iam nm verb w = (Inr (RoleExists False), issue (GetRole nm) w)"
  using assms by (simp add: exists_already_def IAM_get_role_def)

lemma exists_already_found:
  assumes "get_role iam (calls w) nm = Inr response"
    and "list_attached_role_policies iam (calls w @ [GetRole nm]) nm = Inr attached"
  shows "fst (exists_already iam nm verb w) =
           Inr \<lparr>re_exists = True,
                re_description = Some (case role_Description response of None \<Rightarrow> [] | Some d \<Rightarrow> d),
                re_role_policy_document = Some (role_AssumeRolePolicyDocument response),
                re_policies = Some (map PolicyName attached),
                re_add_instance_profile = Some False,
                re_arn = Some (role_Arn response)\<rparr>"
    and "calls (snd (exists_already iam nm verb w)) =
           calls w @ [GetRole nm, ListAttachedRolePolicies nm]"
  using assms
  by (simp_all add: exists_already_def IAM_get_role_def IAM_list_attached_role_policies_def Let_def)

text \<open>
  C7. When \<open>get_role\<close> raises \<open>NoSuchEntityException\<close>, \<open>_exists_already\<close> returns a
  namedtuple with \<open>exists = False\<close> and \<open>None\<close> in every other field (description, trust
  policy document, policies, instance-profile flag, ARN); it returns normally, so the
  exception does not reach the caller. The one call issued is that \<open>get_role\<close>.
\<close>

theorem probe_no_such_entity:
  assumes "get_role iam (calls w) nm = Inl NoSuchEntityException"
  shows "exists_already iam nm verb w =
           (Inr \<lparr>re_exists = False, re_description = None, re_role_policy_document = None,
                 re_policies = None, re_add_instance_profile = None, re_arn = None\<rparr>,
            w\<lparr>calls := calls w @ [GetRole nm]\<rparr>)"
  using assms by (simp add: exists_already_def IAM_get_role_def RoleExists_def issue_def)

theorem probe_no_such_entity_witness:
  "exists_already (stub_iam [] [policy_A] []) ''missing-role'' 0 w0 =
     (Inr \<lparr>re_exists = False, re_description = None, re_role_policy_document = None,
           re_policies = None, re_add_instance_profile = None, re_arn = None\<rparr>,
      \<lparr>calls = [GetRole ''missing-role''], stdout = []\<rparr>)"
  using probe_no_such_entity [of "stub_iam [] [policy_A] []" w0 "''missing-role''" 0]
  by (simp add: stub_iam_def w0_def)

text \<open>
  C5. Whenever \<open>_exists_already\<close> returns a namedtuple with \<open>exists = True\<close>, its
  \<open>add_instance_profile\<close> field is \<open>False\<close>, whatever the client would answer to
  \<open>list_instance_profiles_for_role\<close>: the probe never asks.
\<close>

theorem probe_never_reports_instance_profile:
  assumes "exists_already iam nm verb w = (Inr snapshot, w')" and "re_exists snapshot"
  shows "re_add_instance_profile snapshot = Some False"
  using assms
  by (auto simp: exists_already_def RoleExists_def Let_def split: prod.splits sum.splits if_splits)

theorem probe_never_reports_instance_profile_witness:
  "list_instance_profiles_for_role (stub_iam [(''old-role'', existing_role, [policy_A])] [policy_A] [bound_profile])
       [] ''old-role'' = Inr [bound_profile]
   \<and> re_exists (projr (fst (exists_already
         (stub_iam [(''old-role'', existing_role, [policy_A])] [policy_A] [bound_profile]) ''old-role'' 0 w0)))
   \<and> re_add_instance_profile (projr (fst (exists_already
         (stub_iam [(''old-role'', existing_role, [policy_A])] [policy_A] [bound_profile]) ''old-role'' 0 w0)))
       = Some False"
proof -
  let ?iam = "stub_iam [(''old-role'', existing_role, [policy_A])] [policy_A] [bound_profile]"
  let ?snap = "\<lparr>re_exists = True, re_description = Some [],
                 re_role_policy_document = Some (JObj [(''Version'', JStr ''2008-10-17'')]),
                 re_policies = Some [''AmazonS3ReadOnlyAccess''],
                 re_add_instance_profile = Some False,
                 re_arn = Some ''arn:aws:iam::123456789012:role/old-role''\<rparr>"
  have run: "exists_already ?iam ''old-role'' 0 w0 =
               (Inr ?snap, \<lparr>calls = [GetRole ''old-role'', ListAttachedRolePolicies ''old-role''],
                        stdout = []\<rparr>)"
    by (simp add: exists_already_def IAM_defs stub_defs issue_def)
  have ex: "re_exists ?snap" by simp
  from probe_never_reports_instance_profile [OF run ex] run show ?thesis
    by (simp add: stub_iam_def)
qed

section \<open>The constructor\<close>

text \<open>
  C1, as the code has it. When the service is not one of the allowed five, \<open>get_role\<close>
  reports that the name is not present, and the description is one that line 56 can
  convert (it is falsy, or \<open>str\<close> of it does not raise), \<open>__init__\<close> raises the
  service-principal error after exactly one client call, the probe's \<open>get_role\<close> for that
  name, and before any other call: no \<open>list_policies\<close>, no \<open>create_role\<close>, no write of
  any kind.
\<close>

theorem invalid_service_after_probe_only:
  assumes "svc \<notin> set allowed_services"
    and "get_role iam (calls w) nm = Inl NoSuchEntityException"
    and "\<not> (truthy descr \<and> str_raises descr)"
  shows "init iam nm descr svc pols aip verb w =
           (Inl (InvalidServicePrincipal allowed_services), w\<lparr>calls := calls w @ [GetRole nm]\<rparr>)"
  using assms by (auto simp: init_def exists_already_not_found RoleExists_def issue_def str_def)

theorem invalid_service_after_probe_only_witness:
  "''invalid-service'' \<notin> set allowed_services
   \<and> init (stub_iam [] [policy_A, policy_B] []) ''my-role'' PyNone ''invalid-service''
        (PolStr ''AmazonS3ReadOnlyAccess'') (PyBool True) 1 w0 =
       (Inl (InvalidServicePrincipal [''batch'', ''ec2'', ''ecs-tasks'', ''lambda'', ''spotfleet'']),
        \<lparr>calls = [GetRole ''my-role''], stdout = []\<rparr>)"
proof -
  have bad: "''invalid-service'' \<notin> set allowed_services"
    by (simp add: allowed_services_def)
  have absent: "get_role (stub_iam [] [policy_A, policy_B] []) (calls w0) ''my-role'' =
                  Inl NoSuchEntityException"
    by (simp add: stub_iam_def)
  have convertible: "\<not> (truthy PyNone \<and> str_raises PyNone)"
    by simp
  from invalid_service_after_probe_only [OF bad absent convertible] bad show ?thesis
    by (simp add: w0_def allowed_services_def)
qed

text \<open>
  A truthy description that \<open>str\<close> cannot convert stops the constructor at line 56, before
  the service is looked at; the probe's \<open>get_role\<close> is again the only call.
\<close>

lemma str_raises_boundary:
  "truthy (PyInt (10 ^ int_max_str_digits)) \<and> str_raises (PyInt (10 ^ int_max_str_digits))
   \<and> str_raises (PyInt (- (10 ^ int_max_str_digits)))
   \<and> \<not> str_raises (PyInt (10 ^ int_max_str_digits - 1))"
proof -
  have "(1::int) \<le> 10 ^ int_max_str_digits"
    by (rule one_le_power) simp
  then have "\<bar>(10::int) ^ int_max_str_digits - 1\<bar> = 10 ^ int_max_str_digits - 1"
    by simp
  then show ?thesis by simp
qed

lemma init_description_not_convertible:
  assumes "get_role iam (calls w) nm = Inl NoSuchEntityException"
    and "truthy descr" and "str_raises descr"
  shows "init iam nm descr svc pols aip verb w =
           (Inl ValueError, w\<lparr>calls := calls w @ [GetRole nm]\<rparr>)"
  using assms by (simp add: init_def exists_already_not_found RoleExists_def issue_def str_def)

text \<open>
  The trace at the point of the error is not empty: it holds the probe's \<open>get_role\<close>.
\<close>

theorem invalid_service_trace_counterexample:
  "fst (init (stub_iam [] [] []) ''my-role'' PyNone ''invalid-service'' (PolSeq [])
          (PyBool False) 0 w0) =
     Inl (InvalidServicePrincipal allowed_services)
   \<and> calls (snd (init (stub_iam [] [] []) ''my-role'' PyNone ''invalid-service'' (PolSeq [])
          (PyBool False) 0 w0)) = [GetRole ''my-role'']
   \<and> calls (snd (init (stub_iam [] [] []) ''my-role'' PyNone ''invalid-service'' (PolSeq [])
          (PyBool False) 0 w0)) \<noteq> []"
  by (simp add: init_def exists_already_def IAM_get_role_def stub_iam_def w0_def RoleExists_def
      allowed_services_def)

text \<open>
  C4. When \<open>get_role\<close> finds the name and \<open>list_attached_role_policies\<close> answers, the
  constructor returns a role with \<open>pre_existing = True\<close>, \<open>service = None\<close>, and policies
  that are, as a set, the policy names the client reported as attached.
\<close>

theorem adopt_existing_role:
  assumes "get_role iam (calls w) nm = Inr response"
    and "list_attached_role_policies iam (calls w @ [GetRole nm]) nm = Inr attached"
  shows "\<exists>r ps. fst (init iam nm descr svc pols aip verb w) = Inr r
           \<and> pre_existing r \<and> service r = None
           \<and> policies r = Some ps \<and> set ps = PolicyName ` set attached"
  using assms
  by (simp add: init_def exists_already_def IAM_get_role_def IAM_list_attached_role_policies_def Let_def)

theorem adopt_existing_role_witness:
  "\<exists>r ps. fst (init (stub_iam [(''old-role'', existing_role, [policy_B, policy_A])] [policy_A, policy_B] [])
                ''old-role'' PyNone ''not-a-service'' (PolSeq [PyInt 3]) PyNone 0 w0) = Inr r
     \<and> pre_existing r \<and> service r = None
     \<and> policies r = Some ps
     \<and> set ps = {''AmazonS3ReadOnlyAccess'', ''AmazonEC2FullAccess''}"
proof -
  let ?iam = "stub_iam [(''old-role'', existing_role, [policy_B, policy_A])] [policy_A, policy_B] []"
  have present: "get_role ?iam (calls w0) ''old-role'' = Inr existing_role"
    by (simp add: stub_iam_def)
  have attached: "list_attached_role_policies ?iam (calls w0 @ [GetRole ''old-role'']) ''old-role'' =
                    Inr [policy_B, policy_A]"
    by (simp add: stub_iam_def)
  have names: "PolicyName ` set [policy_B, policy_A] = {''AmazonS3ReadOnlyAccess'', ''AmazonEC2FullAccess''}"
    by (auto simp: policy_A_def policy_B_def)
  from adopt_existing_role [OF present attached, of PyNone "''not-a-service''" "PolSeq [PyInt 3]" PyNone 0]
  show ?thesis unfolding names .
qed

lemma init_fresh_fields:
  assumes "init iam nm descr svc pols aip verb w = (Inr r, w')" and "\<not> pre_existing r"
  shows "description r =
           Some (if truthy descr then py_str descr else ''This role was generated by cloudknot'')"
    and "service r = Some (svc @ ''.amazonaws.com'')"
    and "role_policy_document r = Some (role_policy (svc @ ''.amazonaws.com''))"
    and "svc \<in> set allowed_services"
  using assms
  by (auto simp: init_def Let_def str_def split: prod.splits sum.splits if_splits pyval.splits)

lemma init_stub_fresh:
  "\<not> str_raises descr \<Longrightarrow>
   init (stub_iam [] [policy_A, policy_B] []) ''my-role'' descr ''batch''
       (PolSeq [PyStr ''AmazonS3ReadOnlyAccess'']) (PyBool False) 0 w0 =
     (Inr \<lparr>name = ''my-role'', verbosity = 0, pre_existing = False,
           description = Some (if truthy descr then py_str descr
                               else ''This role was generated by cloudknot''),
           service = Some ''batch.amazonaws.com'',
           role_policy_document = Some (role_policy ''batch.amazonaws.com''),
           policies = Some [''AmazonS3ReadOnlyAccess''],
           add_instance_profile = Some False,
           arn = Some ''arn:aws:iam::123456789012:role/my-role''\<rparr>,
      \<lparr>calls = [GetRole ''my-role'', ListPolicies,
                CreateRole ''my-role'' (role_policy ''batch.amazonaws.com'')
                  (if truthy descr then py_str descr else ''This role was generated by cloudknot''),
                ListPolicies,
                AttachRolePolicy ''arn:aws:iam::aws:policy/AmazonS3ReadOnlyAccess'' ''my-role''],
       stdout = []\<rparr>)"
  by (simp add: init_def exists_already_def IAM_defs stub_defs issue_def RoleExists_def
      allowed_services_def resolve_policies_def input_policies_def create_def
      policy_filter_arn_def psubset_eq Let_def str_def)

text \<open>
  C8. For a service \<open>p\<close> among the allowed five, the trust-policy document of a freshly
  constructed role is the dictionary with \<open>Version\<close> \<open>2012-10-17\<close> and a one-element
  \<open>Statement\<close> list whose statement has \<open>Sid\<close> empty, \<open>Effect\<close> \<open>Allow\<close>, \<open>Principal\<close>
  \<open>{Service: p.amazonaws.com}\<close> and \<open>Action\<close> \<open>sts:AssumeRole\<close>.
\<close>

theorem trust_policy_document_shape:
  assumes "p \<in> set allowed_services"
    and "init iam nm descr p pols aip verb w = (Inr r, w')"
    and "\<not> pre_existing r"
  shows "role_policy_document r =
           Some (JObj [(''Version'', JStr ''2012-10-17''),
                       (''Statement'',
                        JArr [JObj [(''Sid'', JStr ''''),
                                    (''Effect'', JStr ''Allow''),
                                    (''Principal'', JObj [(''Service'', JStr (p @ ''.amazonaws.com''))]),
                                    (''Action'', JStr ''sts:AssumeRole'')]])])"
  using init_fresh_fields(3) [OF assms(2,3)] by (simp add: role_policy_def)

theorem trust_policy_document_shape_witness:
  "''batch'' \<in> set allowed_services
   \<and> role_policy_document (projr (fst (init (stub_iam [] [policy_A, policy_B] []) ''my-role'' PyNone
        ''batch'' (PolSeq [PyStr ''AmazonS3ReadOnlyAccess'']) (PyBool False) 0 w0))) =
       Some (JObj [(''Version'', JStr ''2012-10-17''),
                   (''Statement'',
                    JArr [JObj [(''Sid'', JStr ''''),
                                (''Effect'', JStr ''Allow''),
                                (''Principal'', JObj [(''Service'', JStr ''batch.amazonaws.com'')]),
                                (''Action'', JStr ''sts:AssumeRole'')]])])"
proof -
  have ok: "''batch'' \<in> set allowed_services"
    by (simp add: allowed_services_def)
  have run: "init (stub_iam [] [policy_A, policy_B] []) ''my-role'' PyNone ''batch''
       (PolSeq [PyStr ''AmazonS3ReadOnlyAccess'']) (PyBool False) 0 w0 =
     (Inr \<lparr>name = ''my-role'', verbosity = 0, pre_existing = False,
           description = Some ''This role was generated by cloudknot'',
           service = Some ''batch.amazonaws.com'',
           role_policy_document = Some (role_policy ''batch.amazonaws.com''),
           policies = Some [''AmazonS3ReadOnlyAccess''],
           add_instance_profile = Some False,
           arn = Some ''arn:aws:iam::123456789012:role/my-role''\<rparr>,
      \<lparr>calls = [GetRole ''my-role'', ListPolicies,
                CreateRole ''my-role'' (role_policy ''batch.amazonaws.com'')
                  ''This role was generated by cloudknot'',
                ListPolicies,
                AttachRolePolicy ''arn:aws:iam::aws:policy/AmazonS3ReadOnlyAccess'' ''my-role''],
       stdout = []\<rparr>)"
    using init_stub_fresh [of PyNone] by simp
  have fresh: "\<not> pre_existing (projr (fst (init (stub_iam [] [policy_A, policy_B] []) ''my-role'' PyNone
        ''batch'' (PolSeq [PyStr ''AmazonS3ReadOnlyAccess'']) (PyBool False) 0 w0)))"
    by (simp add: run)
  have eq: "init (stub_iam [] [policy_A, policy_B] []) ''my-role'' PyNone
        ''batch'' (PolSeq [PyStr ''AmazonS3ReadOnlyAccess'']) (PyBool False) 0 w0 =
      (Inr (projr (fst (init (stub_iam [] [policy_A, policy_B] []) ''my-role'' PyNone
        ''batch'' (PolSeq [PyStr ''AmazonS3ReadOnlyAccess'']) (PyBool False) 0 w0))),
       snd (init (stub_iam [] [policy_A, policy_B] []) ''my-role'' PyNone
        ''batch'' (PolSeq [PyStr ''AmazonS3ReadOnlyAccess'']) (PyBool False) 0 w0))"
    by (simp add: run)
  from trust_policy_document_shape [OF ok eq fresh] ok show ?thesis by simp
qed

text \<open>
  C10. In a fresh construction, a \<open>description\<close> argument that is \<open>None\<close> or the empty
  string (the only falsy string) gives the role the description
  \<open>This role was generated by cloudknot\<close>; a truthy argument gives it \<open>str(description)\<close>.
\<close>

theorem fresh_description:
  assumes "init iam nm descr svc pols aip verb w = (Inr r, w')" and "\<not> pre_existing r"
  shows "(descr = PyNone \<or> descr = PyStr '''' \<longrightarrow>
            description r = Some ''This role was generated by cloudknot'')
       \<and> (truthy descr \<longrightarrow> description r = Some (py_str descr))"
  using init_fresh_fields(1) [OF assms] by auto

theorem fresh_description_witness:
  "description (projr (fst (init (stub_iam [] [policy_A, policy_B] []) ''my-role'' (PyStr '''')
        ''batch'' (PolSeq [PyStr ''AmazonS3ReadOnlyAccess'']) (PyBool False) 0 w0))) =
     Some ''This role was generated by cloudknot''
   \<and> truthy (PyStr ''batch workers'')
   \<and> description (projr (fst (init (stub_iam [] [policy_A, policy_B] []) ''my-role''
        (PyStr ''batch workers'') ''batch'' (PolSeq [PyStr ''AmazonS3ReadOnlyAccess''])
        (PyBool False) 0 w0))) = Some ''batch workers''"
proof -
  let ?r = "\<lambda>d. \<lparr>name = ''my-role'', verbosity = 0, pre_existing = False,
           description = Some (if truthy d then py_str d
                               else ''This role was generated by cloudknot''),
           service = Some ''batch.amazonaws.com'',
           role_policy_document = Some (role_policy ''batch.amazonaws.com''),
           policies = Some [''AmazonS3ReadOnlyAccess''],
           add_instance_profile = Some False,
           arn = Some ''arn:aws:iam::123456789012:role/my-role''\<rparr>"
  have fresh: "\<not> pre_existing (?r d)" for d by simp
  have conv: "\<not> str_raises (PyStr s)" for s by simp
  from fresh_description [OF init_stub_fresh [OF conv, of "''''"] fresh [of "PyStr ''''"]]
    fresh_description [OF init_stub_fresh [OF conv, of "''batch workers''"] fresh [of "PyStr ''batch workers''"]]
  show ?thesis
    by (simp add: init_stub_fresh [OF conv])
qed

section \<open>Policy resolution\<close>

lemma input_policies_Inl:
  "input_policies pols = Inl e \<longleftrightarrow>
     (\<exists>xs. pols = PolSeq xs \<and> \<not> list_all isinstance_str xs) \<and> e = InvalidPolicySet None
     \<or> pols = PolNonIterable \<and> e = TypeError"
  by (auto simp: input_policies_def split: policy_input.splits)

lemma resolve_policies_Inr_iff:
  "resolve_policies pols aws = Inr ps \<longleftrightarrow> input_policies pols = Inr ps \<and> set ps \<subset> set aws"
  by (auto simp: resolve_policies_def split: sum.splits)

lemma resolve_policies_Inl_iff:
  "resolve_policies pols aws = Inl e \<longleftrightarrow>
     input_policies pols = Inl e
     \<or> (\<exists>ps. input_policies pols = Inr ps \<and> \<not> set ps \<subset> set aws \<and> e = InvalidPolicySet (Some aws))"
  by (auto simp: resolve_policies_def split: sum.splits)

lemma resolve_policies_equal_sets_fail:
  assumes "input_policies pols = Inr ps" and "set ps = set aws"
  shows "resolve_policies pols aws = Inl (InvalidPolicySet (Some aws))"
  using assms by (simp add: resolve_policies_def)

text \<open>
  C2. Resolution is to fail exactly when the input is malformed or names a policy that is
  not available, and so to succeed when the requested set is the whole available set.
  The code compares with \<open><\<close>, the proper-subset test: asking for the one policy of an
  account that has exactly that policy is well formed and names only available policies,
  yet the check raises \<open>each policy must be an AWS managed policy\<close>, and so does the
  constructor, after \<open>get_role\<close> and \<open>list_policies\<close> and before any write.
\<close>

theorem resolve_policies_whole_set_rejected:
  "input_policies (PolSeq [PyStr ''AmazonS3ReadOnlyAccess'']) = Inr [''AmazonS3ReadOnlyAccess'']
   \<and> set [''AmazonS3ReadOnlyAccess''] \<subseteq> set (map PolicyName [policy_A])
   \<and> resolve_policies (PolSeq [PyStr ''AmazonS3ReadOnlyAccess'']) (map PolicyName [policy_A]) =
       Inl (InvalidPolicySet (Some [''AmazonS3ReadOnlyAccess'']))
   \<and> init (stub_iam [] [policy_A] []) ''my-role'' PyNone ''batch''
        (PolSeq [PyStr ''AmazonS3ReadOnlyAccess'']) (PyBool False) 0 w0 =
       (Inl (InvalidPolicySet (Some [''AmazonS3ReadOnlyAccess''])),
        \<lparr>calls = [GetRole ''my-role'', ListPolicies], stdout = []\<rparr>)"
  by (simp add: init_def exists_already_def IAM_defs stub_defs issue_def RoleExists_def
      allowed_services_def resolve_policies_def input_policies_def)

text \<open>
  C3. Constructing with a valid service and no policies is to succeed in every state of
  the available policies. With no policy available at all, the empty request is not a
  proper subset of the empty available set, and a
  construction with a valid service, no policies and a boolean flag raises
  \<open>each policy must be an AWS managed policy\<close> instead of creating the role.
\<close>

theorem init_no_policies_empty_account_rejected:
  "''batch'' \<in> set allowed_services
   \<and> init (stub_iam [] [] []) ''my-role'' PyNone ''batch'' (PolSeq []) (PyBool False) 0 w0 =
       (Inl (InvalidPolicySet (Some [])),
        \<lparr>calls = [GetRole ''my-role'', ListPolicies], stdout = []\<rparr>)"
  by (simp add: init_def exists_already_def IAM_defs stub_defs issue_def RoleExists_def
      allowed_services_def resolve_policies_def input_policies_def)

text \<open>
  Where at least one policy is available and \<open>create_role\<close> answers, the same construction
  does give a role with the ARN that \<open>create_role\<close> returned, \<open>pre_existing = False\<close> and
  no policies.
\<close>

lemma init_fresh_no_policies:
  assumes "get_role iam (calls w) nm = Inl NoSuchEntityException"
    and "svc \<in> set allowed_services"
    and "\<And>h. list_policies iam h = Inr available"
    and "available \<noteq> []"
    and "\<not> (truthy descr \<and> str_raises descr)"
    and "\<And>h. create_role iam h nm (role_policy (svc @ ''.amazonaws.com''))
            (if truthy descr then py_str descr else ''This role was generated by cloudknot'') = Inr a"
  shows "\<exists>r. fst (init iam nm descr svc (PolSeq []) (PyBool False) verb w) = Inr r
           \<and> arn r = Some a \<and> \<not> pre_existing r \<and> policies r = Some []"
  using assms
  by (auto simp: init_def exists_already_not_found RoleExists_def IAM_list_policies_def
      resolve_policies_def input_policies_def create_def IAM_create_role_def Let_def psubset_eq
      str_def)

section \<open>Destruction\<close>

lemma policy_filter_arn_present:
  "p \<in> PolicyName ` set available \<Longrightarrow> \<exists>a. policy_filter_arn available p = Inr a"
  by (auto simp: policy_filter_arn_def filter_empty_conv split: list.splits)

lemma present_policies_have_arns:
  "set pols \<subseteq> PolicyName ` set available \<Longrightarrow>
     \<exists>arns. list_all2 (\<lambda>p a. policy_filter_arn available p = Inr a) pols arns"
proof (induction pols)
  case Nil
  then show ?case by simp
next
  case (Cons p pols)
  then obtain arns where "list_all2 (\<lambda>p a. policy_filter_arn available p = Inr a) pols arns"
    by auto
  moreover from Cons.prems obtain a where "policy_filter_arn available p = Inr a"
    using policy_filter_arn_present [of p available] by auto
  ultimately have "list_all2 (\<lambda>p a. policy_filter_arn available p = Inr a) (p # pols) (a # arns)"
    by simp
  then show ?case by blast
qed

lemma detach_loop_calls:
  assumes "\<And>h a. detach_role_policy iam h nm a = Inr ()"
    and "list_all2 (\<lambda>p a. policy_filter_arn available p = Inr a) pols arns"
  shows "detach_loop iam nm available pols w =
           (Inr (), w\<lparr>calls := calls w @ map (DetachRolePolicy nm) arns\<rparr>)"
  using assms(2)
proof (induction pols arns arbitrary: w rule: list_all2_induct)
  case Nil
  then show ?case by simp
next
  case (Cons p pols a arns)
  show ?case
    by (simp add: Cons.hyps Cons.IH assms(1) IAM_detach_role_policy_def issue_def)
qed

lemma filter_is_write_detach:
  "filter is_write (map (DetachRolePolicy nm) arns) = map (DetachRolePolicy nm) arns"
  by (induction arns) simp_all

text \<open>
  Whatever the client answers: when \<open>remove_aws_resource\<close> runs to the end on a role
  whose instance-profile flag is \<open>True\<close>, its calls have the shape below, with one
  \<open>detach_role_policy\<close> per policy of the role.
\<close>

lemma detach_loop_completed:
  assumes "detach_loop iam nm available pols w = (Inr (), w')"
  shows "\<exists>arns. list_all2 (\<lambda>p a. policy_filter_arn available p = Inr a) pols arns
           \<and> calls w' = calls w @ map (DetachRolePolicy nm) arns \<and> stdout w' = stdout w"
  using assms
proof (induction pols arbitrary: w)
  case Nil
  then show ?case by simp
next
  case (Cons p pols)
  from Cons.prems obtain a where a: "policy_filter_arn available p = Inr a"
    by (auto split: sum.splits)
  with Cons.prems have rest: "detach_loop iam nm available pols (issue (DetachRolePolicy nm a) w) = (Inr (), w')"
    by (auto simp: IAM_detach_role_policy_def split: sum.splits prod.splits)
  from Cons.IH [OF rest] obtain arns
    where "list_all2 (\<lambda>p a. policy_filter_arn available p = Inr a) pols arns"
      and "calls w' = calls (issue (DetachRolePolicy nm a) w) @ map (DetachRolePolicy nm) arns"
      and "stdout w' = stdout (issue (DetachRolePolicy nm a) w)"
    by blast
  with a show ?case
    by (intro exI [of _ "a # arns"]) simp
qed

lemma remove_aws_resource_completed:
  assumes "add_instance_profile self = Some True"
    and "fst (remove_aws_resource iam self w) = Inr ()"
  shows "\<exists>prof pols arns. policies self = Some pols \<and> length arns = length pols
           \<and> calls (snd (snd (remove_aws_resource iam self w))) = calls w @
                [ListInstanceProfilesForRole (name self),
                 RemoveRoleFromInstanceProfile prof (name self),
                 DeleteInstanceProfile prof,
                 ListPolicies]
                @ map (DetachRolePolicy (name self)) arns @ [DeleteRole (name self)]"
proof -
  from assms obtain w1 where s1: "remove_instance_profile iam self w = (Inr (), w1)"
    by (auto simp: remove_aws_resource_def split: prod.splits sum.splits)
  with assms(1) obtain prof where w1: "calls w1 = calls w @
                [ListInstanceProfilesForRole (name self),
                 RemoveRoleFromInstanceProfile prof (name self),
                 DeleteInstanceProfile prof]"
    by (auto simp: remove_instance_profile_def IAM_list_instance_profiles_for_role_def
        IAM_remove_role_from_instance_profile_def IAM_delete_instance_profile_def Let_def
        split: prod.splits sum.splits list.splits)
  from assms(2) s1 obtain available pols w3
    where pols: "policies self = Some pols"
      and loop: "detach_loop iam (name self) available pols (issue ListPolicies w1) = (Inr (), w3)"
      and fin: "calls (snd (snd (remove_aws_resource iam self w))) = calls w3 @ [DeleteRole (name self)]"
    by (auto simp: remove_aws_resource_def IAM_list_policies_def IAM_delete_role_def
        split: prod.splits sum.splits option.splits if_splits)
  from detach_loop_completed [OF loop] obtain arns
    where "list_all2 (\<lambda>p a. policy_filter_arn available p = Inr a) pols arns"
      and "calls w3 = calls (issue ListPolicies w1) @ map (DetachRolePolicy (name self)) arns"
    by blast
  with pols fin w1 show ?thesis
    by (intro exI [of _ prof] exI [of _ pols] exI [of _ arns]) (simp add: list_all2_lengthD)
qed

text \<open>
  C6. Take a role whose instance-profile flag is \<open>True\<close> and whose policies are \<open>pols\<close>, a
  client that reports a bound instance profile, lists every policy of \<open>pols\<close> among the
  available ones, and lets the writes succeed. Then \<open>remove_aws_resource\<close> completes, and
  its calls are: the instance-profile listing, one \<open>remove_role_from_instance_profile\<close>, one
  \<open>delete_instance_profile\<close>, the policy listing, one \<open>detach_role_policy\<close> per policy of
  \<open>pols\<close> in order (so as many as \<open>pols\<close> is long), and one \<open>delete_role\<close>. The writes among
  them are the unbind, the profile deletion, the detaches and the role deletion, in
  that order.
\<close>

theorem destroy_call_sequence:
  assumes "add_instance_profile self = Some True"
    and "policies self = Some pols"
    and "list_instance_profiles_for_role iam (calls w) (name self) = Inr (prof # others)"
    and "\<And>h. remove_role_from_instance_profile iam h (InstanceProfileName prof) (name self) = Inr ()"
    and "\<And>h. delete_instance_profile iam h (InstanceProfileName prof) = Inr ()"
    and "\<And>h. list_policies iam h = Inr available"
    and "set pols \<subseteq> PolicyName ` set available"
    and "\<And>h a. detach_role_policy iam h (name self) a = Inr ()"
    and "\<And>h. delete_role iam h (name self) = Inr ()"
  shows "\<exists>arns. list_all2 (\<lambda>p a. policy_filter_arn available p = Inr a) pols arns
           \<and> length arns = length pols
           \<and> fst (remove_aws_resource iam self w) = Inr ()
           \<and> calls (snd (snd (remove_aws_resource iam self w))) = calls w @
                [ListInstanceProfilesForRole (name self),
                 RemoveRoleFromInstanceProfile (InstanceProfileName prof) (name self),
                 DeleteInstanceProfile (InstanceProfileName prof),
                 ListPolicies]
                @ map (DetachRolePolicy (name self)) arns @ [DeleteRole (name self)]
           \<and> filter is_write (drop (length (calls w)) (calls (snd (snd (remove_aws_resource iam self w))))) =
                [RemoveRoleFromInstanceProfile (InstanceProfileName prof) (name self),
                 DeleteInstanceProfile (InstanceProfileName prof)]
                @ map (DetachRolePolicy (name self)) arns @ [DeleteRole (name self)]"
proof -
  from assms(7) obtain arns
    where arns: "list_all2 (\<lambda>p a. policy_filter_arn available p = Inr a) pols arns"
    using present_policies_have_arns by blast
  have len: "length arns = length pols"
    using arns by (simp add: list_all2_lengthD)
  have step1: "remove_instance_profile iam self w =
      (Inr (), w\<lparr>calls := calls w @
                [ListInstanceProfilesForRole (name self),
                 RemoveRoleFromInstanceProfile (InstanceProfileName prof) (name self),
                 DeleteInstanceProfile (InstanceProfileName prof)]\<rparr>)"
    by (simp add: remove_instance_profile_def assms(1,3,4,5)
        IAM_list_instance_profiles_for_role_def IAM_remove_role_from_instance_profile_def
        IAM_delete_instance_profile_def issue_def Let_def)
  have run: "remove_aws_resource iam self w =
      (Inr (), self,
       (if verbosity self > 0 then print (''Deleted role '' @ name self) else id)
         (w\<lparr>calls := calls w @
                [ListInstanceProfilesForRole (name self),
                 RemoveRoleFromInstanceProfile (InstanceProfileName prof) (name self),
                 DeleteInstanceProfile (InstanceProfileName prof),
                 ListPolicies]
                @ map (DetachRolePolicy (name self)) arns @ [DeleteRole (name self)]\<rparr>))"
    by (simp add: remove_aws_resource_def step1 IAM_list_policies_def assms(2,6,9)
        detach_loop_calls [OF assms(8) arns] IAM_delete_role_def issue_def)
  have completes: "fst (remove_aws_resource iam self w) = Inr ()"
    by (simp add: run)
  have trace: "calls (snd (snd (remove_aws_resource iam self w))) = calls w @
                [ListInstanceProfilesForRole (name self),
                 RemoveRoleFromInstanceProfile (InstanceProfileName prof) (name self),
                 DeleteInstanceProfile (InstanceProfileName prof),
                 ListPolicies]
                @ map (DetachRolePolicy (name self)) arns @ [DeleteRole (name self)]"
    by (simp add: run)
  show ?thesis
    using arns len completes trace by (intro exI [of _ arns]) (simp add: filter_is_write_detach)
qed

theorem destroy_call_sequence_witness:
  "fst (remove_aws_resource (stub_iam [] [policy_A, policy_B] [bound_profile])
          \<lparr>name = ''old-role'', verbosity = 0, pre_existing = False, description = Some ''d'',
           service = Some ''ec2.amazonaws.com'',
           role_policy_document = Some (role_policy ''ec2.amazonaws.com''),
           policies = Some [''AmazonEC2FullAccess'', ''AmazonS3ReadOnlyAccess''],
           add_instance_profile = Some True,
           arn = Some ''arn:aws:iam::123456789012:role/old-role''\<rparr> w0) = Inr ()
   \<and> calls (snd (snd (remove_aws_resource (stub_iam [] [policy_A, policy_B] [bound_profile])
          \<lparr>name = ''old-role'', verbosity = 0, pre_existing = False, description = Some ''d'',
           service = Some ''ec2.amazonaws.com'',
           role_policy_document = Some (role_policy ''ec2.amazonaws.com''),
           policies = Some [''AmazonEC2FullAccess'', ''AmazonS3ReadOnlyAccess''],
           add_instance_profile = Some True,
           arn = Some ''arn:aws:iam::123456789012:role/old-role''\<rparr> w0))) =
       [ListInstanceProfilesForRole ''old-role'',
        RemoveRoleFromInstanceProfile ''old-role-instance-profile'' ''old-role'',
        DeleteInstanceProfile ''old-role-instance-profile'',
        ListPolicies,
        DetachRolePolicy ''old-role'' ''arn:aws:iam::aws:policy/AmazonEC2FullAccess'',
        DetachRolePolicy ''old-role'' ''arn:aws:iam::aws:policy/AmazonS3ReadOnlyAccess'',
        DeleteRole ''old-role'']"
proof -
  let ?iam = "stub_iam [] [policy_A, policy_B] [bound_profile]"
  let ?self = "\<lparr>name = ''old-role'', verbosity = 0, pre_existing = False, description = Some ''d'',
           service = Some ''ec2.amazonaws.com'',
           role_policy_document = Some (role_policy ''ec2.amazonaws.com''),
           policies = Some [''AmazonEC2FullAccess'', ''AmazonS3ReadOnlyAccess''],
           add_instance_profile = Some True,
           arn = Some ''arn:aws:iam::123456789012:role/old-role''\<rparr>"
  have h1: "add_instance_profile ?self = Some True" by simp
  have h2: "policies ?self = Some [''AmazonEC2FullAccess'', ''AmazonS3ReadOnlyAccess'']" by simp
  have h3: "list_instance_profiles_for_role ?iam (calls w0) (name ?self) = Inr (bound_profile # [])"
    by (simp add: stub_iam_def)
  have h4: "remove_role_from_instance_profile ?iam h (InstanceProfileName bound_profile) (name ?self) = Inr ()" for h
    by (simp add: stub_iam_def)
  have h5: "delete_instance_profile ?iam h (InstanceProfileName bound_profile) = Inr ()" for h
    by (simp add: stub_iam_def)
  have h6: "list_policies ?iam h = Inr [policy_A, policy_B]" for h
    by (simp add: stub_iam_def)
  have h7: "set [''AmazonEC2FullAccess'', ''AmazonS3ReadOnlyAccess''] \<subseteq> PolicyName ` set [policy_A, policy_B]"
    by (simp add: policy_A_def policy_B_def)
  have h8: "detach_role_policy ?iam h (name ?self) a = Inr ()" for h a
    by (simp add: stub_iam_def)
  have h9: "delete_role ?iam h (name ?self) = Inr ()" for h
    by (simp add: stub_iam_def)
  from destroy_call_sequence [of ?self _ ?iam w0 bound_profile "[]", OF h1 h2 h3 h4 h5 h6 h7 h8 h9]
  obtain arns where
    a: "list_all2 (\<lambda>p a. policy_filter_arn [policy_A, policy_B] p = Inr a)
          [''AmazonEC2FullAccess'', ''AmazonS3ReadOnlyAccess''] arns"
    and d: "fst (remove_aws_resource ?iam ?self w0) = Inr ()"
    and c: "calls (snd (snd (remove_aws_resource ?iam ?self w0))) = calls w0 @
                [ListInstanceProfilesForRole (name ?self),
                 RemoveRoleFromInstanceProfile (InstanceProfileName bound_profile) (name ?self),
                 DeleteInstanceProfile (InstanceProfileName bound_profile),
                 ListPolicies]
                @ map (DetachRolePolicy (name ?self)) arns @ [DeleteRole (name ?self)]"
    by blast
  from a have "arns = [''arn:aws:iam::aws:policy/AmazonEC2FullAccess'',
                       ''arn:aws:iam::aws:policy/AmazonS3ReadOnlyAccess'']"
    by (auto simp: list_all2_Cons1 policy_filter_arn_def policy_A_def policy_B_def)
  with d c show ?thesis
    by (simp add: w0_def bound_profile_def)
qed

text \<open>
  C9. \<open>remove_aws_resource\<close> leaves the object as it found it, every field included,
  whether it runs to the end or stops at an exception: it assigns to no attribute.
\<close>

theorem remove_aws_resource_keeps_object:
  "fst (snd (remove_aws_resource iam self w)) = self"
  by (simp add: remove_aws_resource_def split: prod.splits sum.splits option.splits)

theorem remove_aws_resource_keeps_object_witness:
  "fst (snd (remove_aws_resource (stub_iam [] [policy_A] [])
       \<lparr>name = ''old-role'', verbosity = 0, pre_existing = True, description = Some '''',
        service = None, role_policy_document = Some (JObj []),
        policies = Some [''AmazonEC2FullAccess''],
        add_instance_profile = Some True,
        arn = Some ''arn:aws:iam::123456789012:role/old-role''\<rparr> w0)) =
     \<lparr>name = ''old-role'', verbosity = 0, pre_existing = True, description = Some '''',
      service = None, role_policy_document = Some (JObj []),
      policies = Some [''AmazonEC2FullAccess''],
      add_instance_profile = Some True,
      arn = Some ''arn:aws:iam::123456789012:role/old-role''\<rparr>
   \<and> fst (remove_aws_resource (stub_iam [] [policy_A] [])
       \<lparr>name = ''old-role'', verbosity = 0, pre_existing = True, description = Some '''',
        service = None, role_policy_document = Some (JObj []),
        policies = Some [''AmazonEC2FullAccess''],
        add_instance_profile = Some True,
        arn = Some ''arn:aws:iam::123456789012:role/old-role''\<rparr> w0) = Inl IndexError"
  using remove_aws_resource_keeps_object [of "stub_iam [] [policy_A] []"
       "\<lparr>name = ''old-role'', verbosity = 0, pre_existing = True, description = Some '''',
        service = None, role_policy_document = Some (JObj []),
        policies = Some [''AmazonEC2FullAccess''],
        add_instance_profile = Some True,
        arn = Some ''arn:aws:iam::123456789012:role/old-role''\<rparr>" w0]
  by (simp add: remove_aws_resource_def remove_instance_profile_def
      IAM_list_instance_profiles_for_role_def stub_iam_def)

end
